theory Spec2Isabelle
  imports Complex_Main "HOL-Library.Word" "HOL-Library.Log_Nat"
begin

unbundle bit_operations_syntax

section \<open>Data model of the CHIP-8 core (core.hpp)\<close>

text \<open>
  The fixed-width integers of the source are words of the same width. A
  \<open>std::array<T, N>\<close> is a function from the index (a \<open>size_t\<close>, here \<open>nat\<close>) to
  \<open>T\<close>; every access of the source is guarded by an \<open>assert\<close> on the index, and the
  model returns an error where such an assertion fails, so the function is never read
  outside \<open>{0..<N}\<close>. The embedding takes assertions as enabled (no \<open>NDEBUG\<close>): a
  failed assertion aborts the process, which is the left summand of the result type.

  The fields \<open>v\<close>, \<open>pc\<close>, \<open>i\<close>, \<open>sp\<close>, \<open>stack\<close>, \<open>fb\<close> and \<open>hexpad\<close> of \<open>Core\<close> carry
  the prefix \<open>core_\<close> here, since a record field is a global constant.
\<close>

type_synonym u8 = "8 word"
type_synonym u16 = "16 word"
type_synonym u32 = "32 word"

datatype error =
    Rom_too_large
  | Pixel_out_of_range
  | Key_index_out_of_range
  | Reg_index_out_of_range
  | Mem_address_out_of_range
  | Stack_overflow
  | Stack_underflow
  | Invalid_instruction int u16
  | Unreachable_code

definition bind_res :: "error + 'a \<Rightarrow> ('a \<Rightarrow> error + 'b) \<Rightarrow> error + 'b" where
  "bind_res r f = (case r of Inl e \<Rightarrow> Inl e | Inr a \<Rightarrow> f a)"

subsection \<open>Framebuffer\<close>

definition PIXEL_OFF :: u32 where
  "PIXEL_OFF = 0"

definition PIXEL_ON :: u32 where
  "PIXEL_ON = 0xFFFFFFFF"

definition FB_WIDTH :: nat where
  "FB_WIDTH = 60"

definition FB_HEIGHT :: nat where
  "FB_HEIGHT = 60"

record Framebuffer =
  pixel_array :: "nat \<Rightarrow> u32"

definition pixel_status :: "Framebuffer \<Rightarrow> nat \<Rightarrow> nat \<Rightarrow> error + bool" where
  "pixel_status f x y =
     (if x < FB_WIDTH \<and> y < FB_HEIGHT
      then Inr (pixel_array f (y * FB_WIDTH + x) = PIXEL_ON)
      else Inl Pixel_out_of_range)"

definition set_pixel :: "Framebuffer \<Rightarrow> nat \<Rightarrow> nat \<Rightarrow> bool \<Rightarrow> error + Framebuffer" where
  "set_pixel f x y status =
     (if x < FB_WIDTH \<and> y < FB_HEIGHT
      then Inr (f\<lparr>pixel_array :=
                  (pixel_array f)(y * FB_WIDTH + x := (if status then PIXEL_ON else PIXEL_OFF))\<rparr>)
      else Inl Pixel_out_of_range)"

text \<open>
  \<open>pixel_array = {PIXEL_OFF}\<close> assigns an array whose first element is \<open>PIXEL_OFF\<close>
  and whose other elements are value-initialised, that is 0.
\<close>

definition clear :: "Framebuffer \<Rightarrow> Framebuffer" where
  "clear f = f\<lparr>pixel_array := (\<lambda>k. if k = 0 then PIXEL_OFF else 0)\<rparr>"

subsection \<open>Hexpad\<close>

record Hexpad =
  hexpad_bitmap :: u16

definition bitmap :: "Hexpad \<Rightarrow> u16" where
  "bitmap h = hexpad_bitmap h"

text \<open>\<open>(hexpad_bitmap & (1 << index)) != 0\<close> tests bit \<open>index\<close> of the bitmap.\<close>

definition is_key_pressed :: "Hexpad \<Rightarrow> nat \<Rightarrow> error + bool" where
  "is_key_pressed h index =
     (if index < 16 then Inr (hexpad_bitmap h AND push_bit index 1 \<noteq> 0)
      else Inl Key_index_out_of_range)"

definition update_hexpad :: "Hexpad \<Rightarrow> u16 \<Rightarrow> Hexpad" where
  "update_hexpad h b = h\<lparr>hexpad_bitmap := b\<rparr>"

subsection \<open>Core\<close>

record Core =
  core_v :: "nat \<Rightarrow> u8"
  core_pc :: u16
  core_i :: u16
  main_memory :: "nat \<Rightarrow> u8"
  core_sp :: nat
  core_stack :: "nat \<Rightarrow> u16"
  timer_sound :: u8
  timer_delay :: u8
  core_fb :: Framebuffer
  core_hexpad :: Hexpad
  is_waiting_for_keypress :: bool
  keypress_index_register :: nat

definition STACK_SIZE :: nat where
  "STACK_SIZE = 16"

definition reg_read :: "Core \<Rightarrow> nat \<Rightarrow> error + u8" where
  "reg_read s index =
     (if index < 0x10 then Inr (core_v s index) else Inl Reg_index_out_of_range)"

definition reg_write :: "Core \<Rightarrow> nat \<Rightarrow> u8 \<Rightarrow> error + Core" where
  "reg_write s index val =
     (if index < 16 then Inr (s\<lparr>core_v := (core_v s)(index := val)\<rparr>)
      else Inl Reg_index_out_of_range)"

definition mem_read :: "Core \<Rightarrow> u16 \<Rightarrow> error + u8" where
  "mem_read s address =
     (if unat address < 0x1000 then Inr (main_memory s (unat address))
      else Inl Mem_address_out_of_range)"

definition mem_write :: "Core \<Rightarrow> u16 \<Rightarrow> u8 \<Rightarrow> error + Core" where
  "mem_write s address val =
     (if unat address < 0x1000
      then Inr (s\<lparr>main_memory := (main_memory s)(unat address := val)\<rparr>)
      else Inl Mem_address_out_of_range)"

text \<open>\<open>vf_set\<close> stores a \<open>bool\<close> in an 8-bit register: 1 for true, 0 for false.\<close>

definition vf_set :: "Core \<Rightarrow> bool \<Rightarrow> Core" where
  "vf_set s val = s\<lparr>core_v := (core_v s)(15 := of_bool val)\<rparr>"

definition i_get :: "Core \<Rightarrow> u16" where
  "i_get s = core_i s"

definition i_set :: "Core \<Rightarrow> u16 \<Rightarrow> Core" where
  "i_set s val = s\<lparr>core_i := val AND 0x0fff\<rparr>"

definition pc_get :: "Core \<Rightarrow> u16" where
  "pc_get s = core_pc s"

definition pc_set :: "Core \<Rightarrow> u16 \<Rightarrow> Core" where
  "pc_set s val = s\<lparr>core_pc := val AND 0x0fff\<rparr>"

text \<open>
  \<open>fetch\<close> sets the program counter before it reads memory; the read is of the old
  program counter. \<open>pc + 1\<close> is an \<open>int\<close> converted to \<open>uint16_t\<close>, which is the
  16-bit sum.
\<close>

definition fetch :: "Core \<Rightarrow> error + (u8 \<times> Core)" where
  "fetch s =
     (let pc = pc_get s;
          s1 = pc_set s (pc + 1)
      in bind_res (mem_read s1 pc) (\<lambda>b. Inr (b, s1)))"

definition skip_instr :: "Core \<Rightarrow> Core" where
  "skip_instr s = pc_set s (pc_get s + 2)"

definition stack_push :: "Core \<Rightarrow> error + Core" where
  "stack_push s =
     (if core_sp s < STACK_SIZE
      then Inr (s\<lparr>core_stack := (core_stack s)(core_sp s := core_pc s),
                  core_sp := core_sp s + 1\<rparr>)
      else Inl Stack_overflow)"

text \<open>
  \<open>stack_pop\<close> is \<open>this->stack[--sp] = this->pc\<close>: the stack pointer is decremented
  and the program counter is stored into the slot; the program counter is not written.
\<close>

definition stack_pop :: "Core \<Rightarrow> error + Core" where
  "stack_pop s =
     (if core_sp s > 0
      then Inr (s\<lparr>core_sp := core_sp s - 1,
                  core_stack := (core_stack s)(core_sp s - 1 := core_pc s)\<rparr>)
      else Inl Stack_underflow)"

subsection \<open>Timers\<close>

text \<open>\<open>timer - 1\<close> is an \<open>int\<close> stored back into a \<open>uint8_t\<close>: the 8-bit difference.\<close>

definition tick_timers :: "Core \<Rightarrow> Core" where
  "tick_timers s =
     (let s1 = s\<lparr>timer_delay := (if timer_delay s > 0 then timer_delay s - 1 else timer_delay s)\<rparr>
      in s1\<lparr>timer_sound := (if timer_sound s1 > 0 then timer_sound s1 - 1 else timer_sound s1)\<rparr>)"

subsection \<open>Keypad update\<close>

text \<open>
  \<open>std::log2(diff)\<close> is a \<open>double\<close> that \<open>reg_write\<close> receives as a \<open>uint8_t\<close>: the
  conversion drops the fraction. For \<open>0 < diff < 65536\<close> that is the position of the
  highest set bit, computed here by halving.
\<close>

fun log2_trunc :: "nat \<Rightarrow> nat" where
  "log2_trunc d = (if d < 2 then 0 else Suc (log2_trunc (d div 2)))"

declare log2_trunc.simps [simp del]

definition update_hexpad_bitmap :: "Core \<Rightarrow> u16 \<Rightarrow> error + Core" where
  "update_hexpad_bitmap s b =
     (let old_bitmap = bitmap (core_hexpad s);
          diff = (b XOR old_bitmap) AND b
      in bind_res
           (if is_waiting_for_keypress s \<and> diff \<noteq> 0
            then reg_write (s\<lparr>is_waiting_for_keypress := False\<rparr>)
                   (keypress_index_register s) (of_nat (log2_trunc (unat diff)))
            else Inr s)
           (\<lambda>s1. Inr (s1\<lparr>core_hexpad := update_hexpad (core_hexpad s1) b\<rparr>)))"

subsection \<open>Keypad update from the array of key states\<close>

text \<open>
  \<open>update_hexpad\<close> of \<open>Core\<close> packs 16 booleans into the bitmap, key \<open>k\<close> at bit \<open>k\<close>,
  and hands it to \<open>update_hexpad_bitmap\<close>.
\<close>

definition pack_hexpad :: "(nat \<Rightarrow> bool) \<Rightarrow> u16" where
  "pack_hexpad hexpad =
     of_bool (hexpad 0)
     OR push_bit 1 (of_bool (hexpad 1))
     OR push_bit 2 (of_bool (hexpad 2))
     OR push_bit 3 (of_bool (hexpad 3))
     OR push_bit 4 (of_bool (hexpad 4))
     OR push_bit 5 (of_bool (hexpad 5))
     OR push_bit 6 (of_bool (hexpad 6))
     OR push_bit 7 (of_bool (hexpad 7))
     OR push_bit 8 (of_bool (hexpad 8))
     OR push_bit 9 (of_bool (hexpad 9))
     OR push_bit 10 (of_bool (hexpad 10))
     OR push_bit 11 (of_bool (hexpad 11))
     OR push_bit 12 (of_bool (hexpad 12))
     OR push_bit 13 (of_bool (hexpad 13))
     OR push_bit 14 (of_bool (hexpad 14))
     OR push_bit 15 (of_bool (hexpad 15))"

definition core_update_hexpad :: "Core \<Rightarrow> (nat \<Rightarrow> bool) \<Rightarrow> error + Core" where
  "core_update_hexpad s hexpad = update_hexpad_bitmap s (pack_hexpad hexpad)"

subsection \<open>Creation\<close>

definition FONT_DATA :: "u8 list" where
  "FONT_DATA =
     [0xF0, 0x90, 0x90, 0x90, 0xF0,
      0x20, 0x60, 0x20, 0x20, 0x70,
      0xF0, 0x10, 0xF0, 0x80, 0xF0,
      0xF0, 0x10, 0xF0, 0x10, 0xF0,
      0x90, 0x90, 0xF0, 0x10, 0x10,
      0xF0, 0x80, 0xF0, 0x10, 0xF0,
      0xF0, 0x80, 0xF0, 0x90, 0xF0,
      0xF0, 0x10, 0x20, 0x40, 0x40,
      0xF0, 0x90, 0xF0, 0x90, 0xF0,
      0xF0, 0x90, 0xF0, 0x10, 0xF0,
      0xF0, 0x90, 0xF0, 0x90, 0x90,
      0xE0, 0x90, 0xE0, 0x90, 0xE0,
      0xF0, 0x80, 0x80, 0x80, 0xF0,
      0xE0, 0x90, 0x90, 0x90, 0xE0,
      0xF0, 0x80, 0xF0, 0x80, 0xF0,
      0xF0, 0x80, 0xF0, 0x80, 0x80]"

text \<open>
  \<open>Core()\<close> value-initialises a class whose default constructor is defaulted on its
  first declaration, so every member starts as zero: registers, memory, stack, both
  timers, the pixel array (0 is \<open>PIXEL_OFF\<close>), the keypad bitmap and the wait flag.
\<close>

definition zero_Core :: Core where
  "zero_Core =
     \<lparr>core_v = (\<lambda>_. 0), core_pc = 0, core_i = 0, main_memory = (\<lambda>_. 0), core_sp = 0,
      core_stack = (\<lambda>_. 0), timer_sound = 0, timer_delay = 0,
      core_fb = \<lparr>pixel_array = (\<lambda>_. 0)\<rparr>, core_hexpad = \<lparr>hexpad_bitmap = 0\<rparr>,
      is_waiting_for_keypress = False, keypress_index_register = 0\<rparr>"

text \<open>
  The two copy loops of \<open>create\<close>, over the bytes left to copy; \<open>k\<close> is the loop
  counter, and the address \<open>k + base\<close> is a \<open>uint32_t\<close> that \<open>mem_write\<close> receives as a
  \<open>uint16_t\<close>.
\<close>

fun copy_bytes :: "nat \<Rightarrow> nat \<Rightarrow> u8 list \<Rightarrow> Core \<Rightarrow> error + Core" where
  "copy_bytes base k [] s = Inr s"
| "copy_bytes base k (b # bs) s =
     bind_res (mem_write s (of_nat (k + base)) b) (copy_bytes base (k + 1) bs)"

definition create :: "u8 list \<Rightarrow> error + Core" where
  "create rom =
     (if length rom > 4096 - 512 then Inl Rom_too_large
      else bind_res (copy_bytes 512 0 rom zero_Core) (\<lambda>s1.
           bind_res (copy_bytes 0 0 FONT_DATA s1) (\<lambda>s2.
           Inr (s2\<lparr>core_pc := 0x200\<rparr>))))"

subsection \<open>Executing one instruction (core.cpp)\<close>

text \<open>
  The label \<open>invalid_instr\<close>: the message shows \<open>pc - 2\<close> (an \<open>int\<close>) and the
  instruction word, and the assertion that follows fails.
\<close>

definition invalid_instr :: "u16 \<Rightarrow> u16 \<Rightarrow> error + Core" where
  "invalid_instr pc instruction = Inl (Invalid_instruction (uint pc - 2) instruction)"

text \<open>
  The loops of DXYN. The counters \<open>h\<close> and \<open>w\<close> are \<open>uint32_t\<close> below \<open>n \<le> 15\<close>, so
  they are natural numbers here. \<open>x\<close> and \<open>y\<close> are the register numbers of the
  instruction word, \<open>vx\<close> and \<open>vy\<close> the values of those registers.
\<close>

function draw_cols ::
  "nat \<Rightarrow> u8 \<Rightarrow> u8 \<Rightarrow> u8 \<Rightarrow> nat \<Rightarrow> nat \<Rightarrow> nat \<Rightarrow> nat \<Rightarrow> bool \<Rightarrow> Framebuffer
     \<Rightarrow> error + (bool \<times> Framebuffer)" where
  "draw_cols n row vx vy h x y w collision f =
     (if w < n then
        (let xp = (unat vx + w) mod FB_WIDTH;
             yp = (unat vy + h) mod FB_HEIGHT;
             new_pixel = (row AND push_bit w 1 \<noteq> 0)
         in bind_res (pixel_status f xp yp) (\<lambda>old_pixel.
            bind_res (set_pixel f x y True) (\<lambda>f1.
            draw_cols n row vx vy h x y (w + 1) (collision \<or> (old_pixel \<noteq> new_pixel)) f1)))
      else Inr (collision, f))"
  by pat_completeness auto
termination
  by (relation "measure (\<lambda>(n, row, vx, vy, h, x, y, w, collision, f). n - w)") auto

declare draw_cols.simps [simp del]

function draw_rows ::
  "nat \<Rightarrow> u16 \<Rightarrow> u8 \<Rightarrow> u8 \<Rightarrow> nat \<Rightarrow> nat \<Rightarrow> nat \<Rightarrow> bool \<Rightarrow> Core \<Rightarrow> error + (bool \<times> Core)" where
  "draw_rows n i vx vy x y h collision s =
     (if h < n then
        bind_res (mem_read s (i + of_nat h)) (\<lambda>row.
        bind_res (draw_cols n row vx vy h x y 0 collision (core_fb s)) (\<lambda>(c1, f1).
        draw_rows n i vx vy x y (h + 1) c1 (s\<lparr>core_fb := f1\<rparr>)))
      else Inr (collision, s))"
  by pat_completeness auto
termination
  by (relation "measure (\<lambda>(n, i, vx, vy, x, y, h, collision, s). n - h)") auto

declare draw_rows.simps [simp del]

definition draw_sprite :: "Core \<Rightarrow> nat \<Rightarrow> u16 \<Rightarrow> u8 \<Rightarrow> u8 \<Rightarrow> nat \<Rightarrow> nat \<Rightarrow> error + Core" where
  "draw_sprite s n i vx vy x y =
     bind_res (draw_rows n i vx vy x y 0 False s) (\<lambda>(collision, s1).
     Inr (vf_set s1 collision))"

text \<open>The loops of FX55 and FX65, \<open>for (j = 0; j <= x; ++j)\<close>.\<close>

function store_regs :: "u16 \<Rightarrow> nat \<Rightarrow> nat \<Rightarrow> Core \<Rightarrow> error + Core" where
  "store_regs i x j s =
     (if j \<le> x then
        bind_res (reg_read s j) (\<lambda>r.
        bind_res (mem_write s (i + of_nat j) r) (\<lambda>s1.
        store_regs i x (j + 1) s1))
      else Inr s)"
  by pat_completeness auto
termination
  by (relation "measure (\<lambda>(i, x, j, s). x + 1 - j)") auto

declare store_regs.simps [simp del]

function load_regs :: "u16 \<Rightarrow> nat \<Rightarrow> nat \<Rightarrow> Core \<Rightarrow> error + Core" where
  "load_regs i x j s =
     (if j \<le> x then
        bind_res (mem_read s (i + of_nat j)) (\<lambda>b.
        bind_res (reg_write s j b) (\<lambda>s1.
        load_regs i x (j + 1) s1))
      else Inr s)"
  by pat_completeness auto
termination
  by (relation "measure (\<lambda>(i, x, j, s). x + 1 - j)") auto

declare load_regs.simps [simp del]

text \<open>
  The arithmetic group, \<open>switch (i000n)\<close> under \<open>case 8\<close>. \<open>res\<close> is a \<open>uint32_t\<close>; the
  operands are promoted to \<open>int\<close> and the result converted, which is 32-bit word
  arithmetic on the zero-extended operands. \<open>res < 0\<close> compares unsigned values.
\<close>

definition exec_8 :: "Core \<Rightarrow> u16 \<Rightarrow> u16 \<Rightarrow> u8 \<Rightarrow> nat \<Rightarrow> u8 \<Rightarrow> u8 \<Rightarrow> error + Core" where
  "exec_8 s pc instruction i000n x vx vy =
     (if i000n = 0 then reg_write s x vy
      else if i000n = 1 then reg_write s x (vx OR vy)
      else if i000n = 2 then reg_write s x (vx AND vy)
      else if i000n = 3 then reg_write s x (vx XOR vy)
      else if i000n = 4 then
        (let res = (ucast vx + ucast vy :: u32);
             carry = (res > 0xFF)
         in bind_res (reg_write s x (ucast res)) (\<lambda>s1. Inr (vf_set s1 carry)))
      else if i000n = 5 then
        (let res = (ucast vx - ucast vy :: u32);
             no_borrow = (res < 0)
         in bind_res (reg_write s x (ucast res)) (\<lambda>s1. Inr (vf_set s1 no_borrow)))
      else if i000n = 6 then
        (let lsb = (vx AND 1 \<noteq> 0)
         in bind_res (reg_write s x (drop_bit 1 vx)) (\<lambda>s1. Inr (vf_set s1 lsb)))
      else if i000n = 7 then
        (let res = (ucast vy - ucast vx :: u32);
             no_borrow = (res < 0)
         in bind_res (reg_write s x (ucast res)) (\<lambda>s1. Inr (vf_set s1 no_borrow)))
      else if i000n = 0xe then
        (let msb = (drop_bit 7 vx \<noteq> 0)
         in bind_res (reg_write s x (push_bit 1 vx)) (\<lambda>s1. Inr (vf_set s1 msb)))
      else invalid_instr pc instruction)"

text \<open>The key group, \<open>switch (i00nn)\<close> under \<open>case 0xe\<close>.\<close>

definition exec_e :: "Core \<Rightarrow> u16 \<Rightarrow> u16 \<Rightarrow> u8 \<Rightarrow> bool \<Rightarrow> error + Core" where
  "exec_e s pc instruction i00nn key_pressed =
     (if i00nn = 0x9e then Inr (if key_pressed then skip_instr s else s)
      else if i00nn = 0xa1 then Inr (if \<not> key_pressed then skip_instr s else s)
      else invalid_instr pc instruction)"

text \<open>The group \<open>switch (i00nn)\<close> under \<open>case 0xf\<close>.\<close>

definition exec_f :: "Core \<Rightarrow> u16 \<Rightarrow> u16 \<Rightarrow> u8 \<Rightarrow> nat \<Rightarrow> u8 \<Rightarrow> u16 \<Rightarrow> error + Core" where
  "exec_f s pc instruction i00nn x vx i =
     (if i00nn = 0x07 then reg_write s x (timer_delay s)
      else if i00nn = 0x0a then
        Inr (s\<lparr>is_waiting_for_keypress := True, keypress_index_register := x\<rparr>)
      else if i00nn = 0x15 then Inr (s\<lparr>timer_delay := vx\<rparr>)
      else if i00nn = 0x18 then Inr (s\<lparr>timer_sound := vx\<rparr>)
      else if i00nn = 0x1e then Inr (i_set s (i + ucast vx))
      else if i00nn = 0x29 then Inr (i_set s (ucast vx * 5))
      else if i00nn = 0x33 then
        (let d0 = vx mod 10;
             d1 = (vx div 10) mod 10;
             d2 = (vx div 100) mod 10
         in bind_res (mem_write s i d2) (\<lambda>s1.
            bind_res (mem_write s1 (i + 1) d1) (\<lambda>s2.
            mem_write s2 (i + 2) d0)))
      else if i00nn = 0x55 then store_regs i x 0 s
      else if i00nn = 0x65 then load_regs i x 0 s
      else invalid_instr pc instruction)"

text \<open>
  Decoding and the two nested switches. \<open>rnd\<close> is the value that \<open>std::rand()\<close> returns
  if the instruction calls it. \<open>nnn\<close> and \<open>nn\<close> are \<open>uint32_t\<close>; \<open>n\<close>, \<open>x\<close> and \<open>y\<close>
  are at most 15 and serve as indices and loop bounds, so they are natural numbers.
\<close>

definition execute :: "u32 \<Rightarrow> u16 \<Rightarrow> Core \<Rightarrow> error + Core" where
  "execute rnd instruction s =
     (let nnn = (ucast (instruction AND 0x0fff) :: u32);
          nn = (ucast (instruction AND 0x00ff) :: u32);
          n = unat (instruction AND 0x000f);
          x = unat (drop_bit 8 instruction AND 0xf);
          y = unat (drop_bit 4 instruction AND 0xf)
      in bind_res (reg_read s x) (\<lambda>vx.
         bind_res (reg_read s y) (\<lambda>vy.
         bind_res (reg_read s 0) (\<lambda>v0.
         let i = i_get s;
             pc = pc_get s
         in bind_res (is_key_pressed (core_hexpad s) (unat (vx AND 0xf))) (\<lambda>key_pressed.
         let in000 = (ucast (drop_bit 12 instruction) :: u8);
             i000n = (ucast (instruction AND 0x000f) :: u8);
             i00nn = (ucast (instruction AND 0x00ff) :: u8)
         in if instruction = 0x00e0 then Inr (s\<lparr>core_fb := clear (core_fb s)\<rparr>)
            else if instruction = 0x00ee then stack_pop s
            else if in000 = 0 then invalid_instr pc instruction
            else if in000 = 1 then Inr (pc_set s (ucast nnn))
            else if in000 = 2 then bind_res (stack_push s) (\<lambda>s1. Inr (pc_set s1 (ucast nnn)))
            else if in000 = 3 then Inr (if ucast vx = nn then skip_instr s else s)
            else if in000 = 4 then Inr (if ucast vx \<noteq> nn then skip_instr s else s)
            else if in000 = 5 then Inr (if vx = vy then skip_instr s else s)
            else if in000 = 6 then reg_write s x (ucast nn)
            else if in000 = 7 then reg_write s x (ucast (ucast vx + nn))
            else if in000 = 8 then exec_8 s pc instruction i000n x vx vy
            else if in000 = 9 then Inr (if vx \<noteq> vy then skip_instr s else s)
            else if in000 = 0xa then Inr (i_set s (ucast nnn))
            else if in000 = 0xb then Inr (pc_set s (ucast (ucast v0 + nnn)))
            else if in000 = 0xc then reg_write s x (ucast (rnd AND nn))
            else if in000 = 0xd then draw_sprite s n i vx vy x y
            else if in000 = 0xe then exec_e s pc instruction i00nn key_pressed
            else if in000 = 0xf then exec_f s pc instruction i00nn x vx i
            else Inl Unreachable_code)))))"

text \<open>
  \<open>run_for_instruction\<close>: nothing happens while the core waits for a key; otherwise two
  bytes are fetched, high byte first, and the word is executed.
\<close>

definition run_for_instruction :: "u32 \<Rightarrow> Core \<Rightarrow> error + Core" where
  "run_for_instruction rnd s =
     (if is_waiting_for_keypress s then Inr s
      else bind_res (fetch s) (\<lambda>(instruction_hi, s1).
           bind_res (fetch s1) (\<lambda>(instruction_lo, s2).
           execute rnd (push_bit 8 (ucast instruction_hi) OR ucast instruction_lo) s2)))"

text \<open>
  \<open>run_for_instructions\<close> runs the loop \<open>while (instructions--)\<close>; \<open>rnd k\<close> is the
  value of \<open>std::rand()\<close> available to the instruction run when \<open>k\<close> more remain after it.
\<close>

fun run_for_instructions :: "(nat \<Rightarrow> u32) \<Rightarrow> nat \<Rightarrow> Core \<Rightarrow> error + Core" where
  "run_for_instructions rnd 0 s = Inr s"
| "run_for_instructions rnd (Suc k) s =
     bind_res (run_for_instruction (rnd k) s) (run_for_instructions rnd k)"

definition run_for_instructions_then_tick_timers ::
  "(nat \<Rightarrow> u32) \<Rightarrow> nat \<Rightarrow> Core \<Rightarrow> error + Core" where
  "run_for_instructions_then_tick_timers rnd instructions s =
     bind_res (run_for_instructions rnd instructions s) (\<lambda>s1. Inr (tick_timers s1))"

subsection \<open>Notions used in the statements\<close>

text \<open>
  The memory that \<open>create\<close> builds from a ROM: the font table at addresses below 80,
  the ROM from address 512, zero elsewhere.
\<close>

definition rom_image :: "u8 list \<Rightarrow> nat \<Rightarrow> u8" where
  "rom_image rom a =
     (if a < 80 then FONT_DATA ! a
      else if 512 \<le> a \<and> a < 512 + length rom then rom ! (a - 512)
      else 0)"

text \<open>
  The program counter after the two fetches of one instruction, and the instruction
  word those fetches assemble from memory.
\<close>

definition next_pc :: "u16 \<Rightarrow> u16" where
  "next_pc p = (((p + 1) AND 0x0fff) + 1) AND 0x0fff"

definition fetched_word :: "Core \<Rightarrow> u16" where
  "fetched_word s =
     push_bit 8 (ucast (main_memory s (unat (core_pc s))))
     OR ucast (main_memory s (unat ((core_pc s + 1) AND 0x0fff)))"

text \<open>
  The 12-bit property of the program counter and the index register, and the states
  that the public entry points can produce: \<open>create\<close>, then any sequence of
  instruction steps, timer ticks and keypad updates that return.
\<close>

definition fits_12_bits :: "Core \<Rightarrow> bool" where
  "fits_12_bits s \<longleftrightarrow> core_pc s = core_pc s AND 0x0fff \<and> core_i s = core_i s AND 0x0fff"

inductive reachable :: "Core \<Rightarrow> bool" where
  reachable_create: "create rom = Inr s \<Longrightarrow> reachable s"
| reachable_step: "reachable s \<Longrightarrow> run_for_instruction rnd s = Inr s1 \<Longrightarrow> reachable s1"
| reachable_tick: "reachable s \<Longrightarrow> reachable (tick_timers s)"
| reachable_keypad: "reachable s \<Longrightarrow> update_hexpad_bitmap s b = Inr s1 \<Longrightarrow> reachable s1"

text \<open>
  The words that the decoder of the specification matches: 00E0 and 00EE as whole
  words, the families selected by the top nibble alone (1 to 7, 9, A to D), and the
  families with a second dispatch, on the low nibble under 8 and on the low byte
  under E and F. The low nibble of a word under 5 or 9 takes no part in the dispatch.
\<close>

definition spec_known_opcode :: "u16 \<Rightarrow> bool" where
  "spec_known_opcode w \<longleftrightarrow>
     (let top = unat (drop_bit 12 w);
          low_nibble = unat (w AND 0x000f);
          low_byte = unat (w AND 0x00ff)
      in w = 0x00e0 \<or> w = 0x00ee
         \<or> top \<in> {1, 2, 3, 4, 5, 6, 7, 9, 0xa, 0xb, 0xc, 0xd}
         \<or> (top = 8 \<and> low_nibble \<in> {0, 1, 2, 3, 4, 5, 6, 7, 0xe})
         \<or> (top = 0xe \<and> low_byte \<in> {0x9e, 0xa1})
         \<or> (top = 0xf \<and> low_byte \<in> {0x07, 0x0a, 0x15, 0x18, 0x1e, 0x29, 0x33, 0x55, 0x65}))"

text \<open>The results that report an invalid instruction.\<close>

fun decode_error :: "error + 'a \<Rightarrow> bool" where
  "decode_error (Inl (Invalid_instruction a w)) = True"
| "decode_error _ = False"

section \<open>Basic facts\<close>

lemma bind_res_Inl [simp]: "bind_res (Inl e) f = Inl e"
  by (simp add: bind_res_def)

lemma bind_res_Inr [simp]: "bind_res (Inr a) f = f a"
  by (simp add: bind_res_def)

subsection \<open>Creation and fetching\<close>

lemma copy_bytes_Inr:
  "base + k + length bs \<le> 4096 \<Longrightarrow>
   copy_bytes base k bs s =
     Inr (s\<lparr>main_memory := (\<lambda>a. if base + k \<le> a \<and> a < base + k + length bs
                                   then bs ! (a - (base + k)) else main_memory s a)\<rparr>)"
proof (induction bs arbitrary: k s)
  case Nil
  have "(\<lambda>a. if base + k \<le> a \<and> a < base + k + length ([] :: u8 list)
             then [] ! (a - (base + k)) else main_memory s a) = main_memory s"
    by (auto simp: fun_eq_iff)
  then show ?case by simp
next
  case (Cons b bs)
  have lt: "k + base < 4096" using Cons.prems by simp
  have u: "unat (of_nat (k + base) :: u16) = k + base"
    by (rule of_nat_inverse [OF refl]) (use lt in simp)
  have le: "base + (k + 1) + length bs \<le> 4096" using Cons.prems by simp
  let ?s1 = "s\<lparr>main_memory := (main_memory s)(k + base := b)\<rparr>"
  have "copy_bytes base k (b # bs) s = copy_bytes base (k + 1) bs ?s1"
    using lt by (simp add: mem_write_def u del: of_nat_add)
  also have "\<dots> = Inr (?s1\<lparr>main_memory :=
      (\<lambda>a. if base + (k + 1) \<le> a \<and> a < base + (k + 1) + length bs
           then bs ! (a - (base + (k + 1))) else main_memory ?s1 a)\<rparr>)"
    by (rule Cons.IH [OF le])
  also have "\<dots> = Inr (s\<lparr>main_memory :=
      (\<lambda>a. if base + k \<le> a \<and> a < base + k + length (b # bs)
           then (b # bs) ! (a - (base + k)) else main_memory s a)\<rparr>)"
    by (auto simp: fun_eq_iff nth_Cons' add.commute intro!: arg_cong [where f = "(!) bs"])
  finally show ?case .
qed


lemma length_FONT_DATA: "length FONT_DATA = 80"
  by (simp add: FONT_DATA_def)

lemma create_Inr:
  assumes "length rom \<le> 3584"
  shows "create rom = Inr (zero_Core\<lparr>main_memory := rom_image rom, core_pc := 0x200\<rparr>)"
proof -
  let ?s1 = "zero_Core\<lparr>main_memory :=
      (\<lambda>a. if 512 + 0 \<le> a \<and> a < 512 + 0 + length rom
           then rom ! (a - (512 + 0)) else main_memory zero_Core a)\<rparr>"
  let ?f2 = "\<lambda>a. if 0 + 0 \<le> a \<and> a < 0 + 0 + length FONT_DATA
           then FONT_DATA ! (a - (0 + 0)) else main_memory ?s1 a"
  have a: "512 + 0 + length rom \<le> 4096" using assms by simp
  have b: "0 + 0 + length FONT_DATA \<le> 4096" by (simp add: length_FONT_DATA)
  have m: "main_memory zero_Core = (\<lambda>_. 0)" by (simp add: zero_Core_def)
  have c: "\<not> length rom > 4096 - 512" using assms by simp
  have f: "?f2 = rom_image rom"
    by (auto simp: fun_eq_iff rom_image_def length_FONT_DATA m)
  have "create rom = Inr (?s1\<lparr>main_memory := ?f2, core_pc := 0x200\<rparr>)"
    by (simp only: create_def c if_False copy_bytes_Inr [OF a] copy_bytes_Inr [OF b] bind_res_Inr)
  also have "\<dots> = Inr (zero_Core\<lparr>main_memory := rom_image rom, core_pc := 0x200\<rparr>)"
    unfolding f by simp
  finally show ?thesis .
qed

lemma create_Inl:
  "\<not> length rom \<le> 3584 \<Longrightarrow> create rom = Inl Rom_too_large"
  by (simp add: create_def)

lemma pixel_status_zero:
  "x < FB_WIDTH \<Longrightarrow> y < FB_HEIGHT \<Longrightarrow> pixel_status \<lparr>pixel_array = (\<lambda>_. 0)\<rparr> x y = Inr False"
  by (simp add: pixel_status_def PIXEL_ON_def)

lemma clear_zero: "clear f = f\<lparr>pixel_array := (\<lambda>_. 0)\<rparr>"
proof -
  have "(\<lambda>k::nat. if k = 0 then PIXEL_OFF else 0) = (\<lambda>_. 0)"
    by (auto simp: PIXEL_OFF_def)
  then show ?thesis by (simp add: clear_def)
qed

lemma pixel_status_clear:
  "x < FB_WIDTH \<Longrightarrow> y < FB_HEIGHT \<Longrightarrow> pixel_status (clear f) x y = Inr False"
  by (simp add: pixel_status_def clear_def PIXEL_ON_def PIXEL_OFF_def)

lemma fetch_Inr:
  "unat (core_pc s) < 4096 \<Longrightarrow>
   fetch s = Inr (main_memory s (unat (core_pc s)), s\<lparr>core_pc := (core_pc s + 1) AND 0x0fff\<rparr>)"
  by (simp add: fetch_def pc_get_def pc_set_def mem_read_def Let_def)

lemma unat_and_fff: "unat ((w :: u16) AND 0x0fff) < 4096"
proof -
  have "w AND 0x0fff \<le> 0x0fff" by (rule word_and_le1)
  then have "unat (w AND 0x0fff) \<le> unat (0x0fff :: u16)" by (simp add: word_le_nat_alt)
  then show ?thesis by simp
qed

lemma run_for_instruction_fetch:
  assumes "\<not> is_waiting_for_keypress s" and "unat (core_pc s) < 4096"
  shows "run_for_instruction rnd s =
           execute rnd (fetched_word s) (s\<lparr>core_pc := next_pc (core_pc s)\<rparr>)"
  using assms
  by (simp add: run_for_instruction_def fetch_Inr unat_and_fff fetched_word_def next_pc_def)

section \<open>The framebuffer after creation and after 00E0\<close>

lemma unat_and_f: "unat ((w :: u8) AND 0xf) < 16"
proof -
  have "w AND 0xf \<le> 0xf" by (rule word_and_le1)
  then have "unat (w AND 0xf) \<le> unat (0xf :: u8)" by (simp add: word_le_nat_alt)
  then show ?thesis by simp
qed

lemma unat_and_f16: "unat ((w :: u16) AND 0xf) < 16"
proof -
  have "w AND 0xf \<le> 0xf" by (rule word_and_le1)
  then have "unat (w AND 0xf) \<le> unat (0xf :: u16)" by (simp add: word_le_nat_alt)
  then show ?thesis by simp
qed

lemma execute_clear:
  "execute rnd 0x00e0 s = Inr (s\<lparr>core_fb := clear (core_fb s)\<rparr>)"
  by (simp add: execute_def reg_read_def is_key_pressed_def Let_def unat_and_f)

text \<open>
  C7. A ROM of at most 3584 bytes is accepted by \<open>create\<close>, and every pixel of the
  framebuffer of the core it returns is off; every pixel is off as well after the
  instruction 00E0 has run.
\<close>

theorem framebuffer_all_off:
  assumes "x < FB_WIDTH" and "y < FB_HEIGHT"
  shows "(length rom \<le> 3584 \<longrightarrow>
            (\<exists>s. create rom = Inr s \<and> pixel_status (core_fb s) x y = Inr False))
       \<and> (\<not> is_waiting_for_keypress s0 \<and> unat (core_pc s0) < 4096 \<and> fetched_word s0 = 0x00e0 \<longrightarrow>
            (\<exists>s. run_for_instruction rnd s0 = Inr s \<and> pixel_status (core_fb s) x y = Inr False))"
  using assms
  by (simp add: create_Inr run_for_instruction_fetch execute_clear pixel_status_clear
      zero_Core_def pixel_status_zero)

theorem framebuffer_all_off_witness:
  "(3 :: nat) < FB_WIDTH \<and> (4 :: nat) < FB_HEIGHT
   \<and> length [0x00, 0xE0 :: u8] \<le> 3584
   \<and> (\<exists>s. create [0x00, 0xE0] = Inr s \<and> pixel_status (core_fb s) 3 4 = Inr False)
   \<and> \<not> is_waiting_for_keypress
         (zero_Core\<lparr>main_memory := rom_image [0x00, 0xE0], core_pc := 0x200,
                      core_fb := \<lparr>pixel_array = (\<lambda>_. PIXEL_ON)\<rparr>\<rparr>)
   \<and> unat (core_pc
         (zero_Core\<lparr>main_memory := rom_image [0x00, 0xE0], core_pc := 0x200,
                      core_fb := \<lparr>pixel_array = (\<lambda>_. PIXEL_ON)\<rparr>\<rparr>)) < 4096
   \<and> fetched_word
         (zero_Core\<lparr>main_memory := rom_image [0x00, 0xE0], core_pc := 0x200,
                      core_fb := \<lparr>pixel_array = (\<lambda>_. PIXEL_ON)\<rparr>\<rparr>) = 0x00e0
   \<and> pixel_status (core_fb
         (zero_Core\<lparr>main_memory := rom_image [0x00, 0xE0], core_pc := 0x200,
                      core_fb := \<lparr>pixel_array = (\<lambda>_. PIXEL_ON)\<rparr>\<rparr>)) 3 4 = Inr True
   \<and> (\<exists>s. run_for_instruction 0
         (zero_Core\<lparr>main_memory := rom_image [0x00, 0xE0], core_pc := 0x200,
                      core_fb := \<lparr>pixel_array = (\<lambda>_. PIXEL_ON)\<rparr>\<rparr>) = Inr s
        \<and> pixel_status (core_fb s) 3 4 = Inr False)"
proof -
  let ?s0 = "zero_Core\<lparr>main_memory := rom_image [0x00, 0xE0], core_pc := 0x200,
                        core_fb := \<lparr>pixel_array = (\<lambda>_. PIXEL_ON)\<rparr>\<rparr>"
  have x: "(3 :: nat) < FB_WIDTH" and y: "(4 :: nat) < FB_HEIGHT"
    by (simp_all add: FB_WIDTH_def FB_HEIGHT_def)
  have w: "fetched_word ?s0 = 0x00e0"
    by (simp add: fetched_word_def rom_image_def)
  have p: "pixel_status (core_fb ?s0) 3 4 = Inr True"
    by (simp add: pixel_status_def FB_WIDTH_def FB_HEIGHT_def)
  show ?thesis
    using framebuffer_all_off [OF x y, of "[0x00, 0xE0]" ?s0 0] x y w p
    by (simp add: zero_Core_def)
qed

section \<open>The wait state and the keypad\<close>

text \<open>
  C5. While the core waits for a key, \<open>run_for_instruction\<close> returns the state it was
  given, whole, and so does any number of calls in \<open>run_for_instructions\<close>.
\<close>

theorem waiting_is_noop:
  assumes "is_waiting_for_keypress s"
  shows "run_for_instruction r s = Inr s \<and> run_for_instructions rnd k s = Inr s"
proof -
  have one: "\<And>r. run_for_instruction r s = Inr s"
    using assms by (simp add: run_for_instruction_def)
  have "run_for_instructions rnd k s = Inr s"
    by (induction k) (simp_all add: one)
  with one show ?thesis by simp
qed

theorem waiting_is_noop_witness:
  "is_waiting_for_keypress (zero_Core\<lparr>is_waiting_for_keypress := True, core_pc := 0x200\<rparr>)
   \<and> run_for_instruction 0 (zero_Core\<lparr>is_waiting_for_keypress := True, core_pc := 0x200\<rparr>)
       = Inr (zero_Core\<lparr>is_waiting_for_keypress := True, core_pc := 0x200\<rparr>)
   \<and> run_for_instructions (\<lambda>_. 0) 60 (zero_Core\<lparr>is_waiting_for_keypress := True, core_pc := 0x200\<rparr>)
       = Inr (zero_Core\<lparr>is_waiting_for_keypress := True, core_pc := 0x200\<rparr>)"
  using waiting_is_noop
    [of "zero_Core\<lparr>is_waiting_for_keypress := True, core_pc := 0x200\<rparr>" 0 "\<lambda>_. 0" 60]
  by simp

text \<open>
  C10. When the core is not waiting for a key, \<open>update_hexpad_bitmap\<close> returns the
  state it was given with the keypad bitmap replaced and no other field changed.
\<close>

theorem update_hexpad_bitmap_frame:
  assumes "\<not> is_waiting_for_keypress s"
  shows "update_hexpad_bitmap s b = Inr (s\<lparr>core_hexpad := (core_hexpad s)\<lparr>hexpad_bitmap := b\<rparr>\<rparr>)"
  using assms by (simp add: update_hexpad_bitmap_def update_hexpad_def Let_def)

theorem update_hexpad_bitmap_frame_witness:
  "\<not> is_waiting_for_keypress (zero_Core\<lparr>core_pc := 0x200\<rparr>)
   \<and> update_hexpad_bitmap (zero_Core\<lparr>core_pc := 0x200\<rparr>) 0x8001 =
       Inr (zero_Core\<lparr>core_pc := 0x200,
              core_hexpad := (core_hexpad (zero_Core\<lparr>core_pc := 0x200\<rparr>))\<lparr>hexpad_bitmap := 0x8001\<rparr>\<rparr>)"
  using update_hexpad_bitmap_frame [of "zero_Core\<lparr>core_pc := 0x200\<rparr>" "0x8001"]
  by (simp add: zero_Core_def)

subsection \<open>The truncated binary logarithm\<close>

text \<open>
  \<open>log2_trunc\<close> is the integer part of the real binary logarithm, which is what the
  conversion of \<open>std::log2(diff)\<close> to an integer yields, and it is the index of the
  highest set bit.
\<close>

lemma log2_trunc_bounds:
  "0 < d \<Longrightarrow> 2 ^ log2_trunc d \<le> d \<and> d < 2 ^ (log2_trunc d + 1)"
proof (induction d rule: log2_trunc.induct)
  case (1 d)
  show ?case
  proof (cases "d < 2")
    case True
    with "1.prems" show ?thesis by (simp add: log2_trunc.simps)
  next
    case False
    then have "0 < d div 2" by simp
    with "1.IH" False have "2 ^ log2_trunc (d div 2) \<le> d div 2 \<and> d div 2 < 2 ^ (log2_trunc (d div 2) + 1)"
      by simp
    moreover have "log2_trunc d = Suc (log2_trunc (d div 2))"
      using False by (simp add: log2_trunc.simps)
    ultimately show ?thesis by auto
  qed
qed

lemma log2_trunc_floorlog: "0 < d \<Longrightarrow> Suc (log2_trunc d) = floorlog 2 d"
proof (induction d rule: log2_trunc.induct)
  case (1 d)
  show ?case
  proof (cases "d < 2")
    case True
    with "1.prems" have "d = 1" by simp
    then show ?thesis by (simp add: log2_trunc.simps compute_floorlog)
  next
    case False
    then have "0 < d div 2" by simp
    with "1.IH" False have "Suc (log2_trunc (d div 2)) = floorlog 2 (d div 2)" by simp
    moreover have "log2_trunc d = Suc (log2_trunc (d div 2))"
      using False by (simp add: log2_trunc.simps)
    ultimately show ?thesis using "1.prems" by (subst compute_floorlog) simp
  qed
qed

lemma log2_trunc_real: "0 < d \<Longrightarrow> int (log2_trunc d) = \<lfloor>log 2 (real d)\<rfloor>"
  using log2_trunc_floorlog [of d] by (simp add: floorlog_def)


subsection \<open>Keypad wait resolution\<close>

lemma new_bits_eq: "((b :: u16) XOR old) AND b = b AND NOT old"
  by (rule bit_eqI) (auto simp: bit_simps)

lemma log2_trunc_highest_bit:
  fixes w :: u16
  assumes "w \<noteq> 0"
  shows "log2_trunc (unat w) < 16 \<and> bit w (log2_trunc (unat w))
         \<and> (\<forall>j. bit w j \<longrightarrow> j \<le> log2_trunc (unat w))"
proof -
  let ?k = "log2_trunc (unat w)"
  have pos: "0 < unat w" using assms by (simp add: unat_gt_0)
  have lo: "2 ^ ?k \<le> unat w" and hi: "unat w < 2 ^ (?k + 1)"
    using log2_trunc_bounds [OF pos] by simp_all
  have "unat w < 2 ^ 16" using unsigned_less [of w] by simp
  with lo have "(2::nat) ^ ?k < 2 ^ 16" by (rule le_less_trans)
  then have k16: "?k < 16" by (simp only: power_strict_increasing_iff semiring_norm)
  have "unat w div 2 ^ ?k = 1"
    using lo hi by (simp add: div_nat_eqI)
  then have "bit (unat w) ?k" by (simp add: bit_iff_odd)
  then have bk: "bit w ?k" by (simp add: bit_unsigned_iff)
  have "j \<le> ?k" if "bit w j" for j
  proof (rule ccontr)
    assume "\<not> j \<le> ?k"
    then have "?k + 1 \<le> j" by simp
    then have "(2::nat) ^ (?k + 1) \<le> 2 ^ j" by (rule power_increasing) simp
    with hi have "unat w < 2 ^ j" by simp
    then have "\<not> bit (unat w) j" by (simp add: bit_iff_odd)
    moreover have "bit (unat w) j" using that by (simp add: bit_unsigned_iff bit_imp_possible_bit)
    ultimately show False by simp
  qed
  with k16 bk show ?thesis by blast
qed

text \<open>
  C4 (amended). In a state that waits for a key with a target register below 16, a
  keypad update whose bitmap has a bit set that the old bitmap has not ends the wait,
  writes into the target register the index of the highest such bit, and stores the
  new bitmap; no other field changes. With one new bit (bit 7, target register 3) the
  register receives that bit's index.
\<close>

theorem keypad_wait_resolution:
  assumes "is_waiting_for_keypress s"
      and "keypress_index_register s < 16"
      and "b AND NOT (bitmap (core_hexpad s)) \<noteq> 0"
  shows "\<exists>k<16.
           update_hexpad_bitmap s b =
             Inr (s\<lparr>is_waiting_for_keypress := False,
                     core_v := (core_v s)(keypress_index_register s := of_nat k),
                     core_hexpad := (core_hexpad s)\<lparr>hexpad_bitmap := b\<rparr>\<rparr>)
           \<and> bit (b AND NOT (bitmap (core_hexpad s))) k
           \<and> (\<forall>j. bit (b AND NOT (bitmap (core_hexpad s))) j \<longrightarrow> j \<le> k)"
proof -
  let ?d = "b AND NOT (bitmap (core_hexpad s))"
  let ?k = "log2_trunc (unat ?d)"
  have h: "?k < 16 \<and> bit ?d ?k \<and> (\<forall>j. bit ?d j \<longrightarrow> j \<le> ?k)"
    using assms(3) by (rule log2_trunc_highest_bit)
  have "update_hexpad_bitmap s b =
          Inr (s\<lparr>is_waiting_for_keypress := False,
                  core_v := (core_v s)(keypress_index_register s := of_nat ?k),
                  core_hexpad := (core_hexpad s)\<lparr>hexpad_bitmap := b\<rparr>\<rparr>)"
    using assms
    by (simp add: update_hexpad_bitmap_def Let_def new_bits_eq reg_write_def update_hexpad_def)
  with h show ?thesis by blast
qed

theorem keypad_wait_resolution_witness:
  "is_waiting_for_keypress (zero_Core\<lparr>is_waiting_for_keypress := True, keypress_index_register := 3\<rparr>)
   \<and> keypress_index_register (zero_Core\<lparr>is_waiting_for_keypress := True, keypress_index_register := 3\<rparr>) < 16
   \<and> 0x80 AND NOT (bitmap (core_hexpad (zero_Core\<lparr>is_waiting_for_keypress := True, keypress_index_register := 3\<rparr>))) \<noteq> 0
   \<and> (\<exists>k<16.
         update_hexpad_bitmap (zero_Core\<lparr>is_waiting_for_keypress := True, keypress_index_register := 3\<rparr>) 0x80 =
           Inr (zero_Core\<lparr>is_waiting_for_keypress := False, keypress_index_register := 3,
                  core_v := (core_v zero_Core)(3 := of_nat k),
                  core_hexpad := (core_hexpad zero_Core)\<lparr>hexpad_bitmap := 0x80\<rparr>\<rparr>)
         \<and> bit (0x80 :: u16) k \<and> (\<forall>j. bit (0x80 :: u16) j \<longrightarrow> j \<le> k))"
  using keypad_wait_resolution
    [of "zero_Core\<lparr>is_waiting_for_keypress := True, keypress_index_register := 3\<rparr>" "0x80"]
  by (simp add: zero_Core_def bitmap_def)

text \<open>
  The claim as stated asks for the lowest new bit. With bits 1 and 2 new, the register
  receives 2, while bit 1 is the lowest new bit.
\<close>

lemma log2_trunc_6: "log2_trunc 6 = 2"
  by (simp add: log2_trunc.simps)

lemma log2_trunc_128: "log2_trunc 128 = 7"
  by (simp add: log2_trunc.simps)

theorem keypad_lowest_bit_counterexample:
  "update_hexpad_bitmap (zero_Core\<lparr>is_waiting_for_keypress := True, keypress_index_register := 3\<rparr>) 6 =
     Inr (zero_Core\<lparr>is_waiting_for_keypress := False, keypress_index_register := 3,
            core_v := (core_v zero_Core)(3 := 2),
            core_hexpad := (core_hexpad zero_Core)\<lparr>hexpad_bitmap := 6\<rparr>\<rparr>)
   \<and> bit (6 AND NOT (bitmap (core_hexpad (zero_Core\<lparr>is_waiting_for_keypress := True,
          keypress_index_register := 3\<rparr>)))) (1 :: nat)
   \<and> \<not> bit (6 AND NOT (bitmap (core_hexpad (zero_Core\<lparr>is_waiting_for_keypress := True,
          keypress_index_register := 3\<rparr>)))) (0 :: nat)
   \<and> (2 :: u8) \<noteq> 1"
  by (simp add: update_hexpad_bitmap_def Let_def bitmap_def zero_Core_def reg_write_def
      update_hexpad_def log2_trunc_6)

lemma keypad_bit7_example:
  "update_hexpad_bitmap (zero_Core\<lparr>is_waiting_for_keypress := True, keypress_index_register := 3\<rparr>) 0x80 =
     Inr (zero_Core\<lparr>is_waiting_for_keypress := False, keypress_index_register := 3,
            core_v := (core_v zero_Core)(3 := 7),
            core_hexpad := (core_hexpad zero_Core)\<lparr>hexpad_bitmap := 0x80\<rparr>\<rparr>)"
  by (simp add: update_hexpad_bitmap_def Let_def bitmap_def zero_Core_def reg_write_def
      update_hexpad_def log2_trunc_128)

section \<open>The 12-bit registers\<close>

lemma bind_res_eq_Inr: "bind_res r f = Inr b \<longleftrightarrow> (\<exists>a. r = Inr a \<and> f a = Inr b)"
  by (cases r) simp_all

lemma and_fff_idem: "(w :: u16) AND 0x0fff AND 0x0fff = w AND 0x0fff"
  by (simp add: and.assoc)

lemma fits_pc_set: "fits_12_bits s \<Longrightarrow> fits_12_bits (pc_set s w)"
  by (simp add: fits_12_bits_def pc_set_def and.assoc)

lemma fits_i_set: "fits_12_bits s \<Longrightarrow> fits_12_bits (i_set s w)"
  by (simp add: fits_12_bits_def i_set_def and.assoc)

lemma fits_skip_instr: "fits_12_bits s \<Longrightarrow> fits_12_bits (skip_instr s)"
  by (simp add: skip_instr_def fits_pc_set)

lemma fits_vf_set: "fits_12_bits s \<Longrightarrow> fits_12_bits (vf_set s c)"
  by (simp add: fits_12_bits_def vf_set_def)

lemma fits_reg_write: "fits_12_bits s \<Longrightarrow> reg_write s x v = Inr s1 \<Longrightarrow> fits_12_bits s1"
  by (auto simp: fits_12_bits_def reg_write_def split: if_splits)

lemma fits_mem_write: "fits_12_bits s \<Longrightarrow> mem_write s a v = Inr s1 \<Longrightarrow> fits_12_bits s1"
  by (auto simp: fits_12_bits_def mem_write_def split: if_splits)

lemma fits_stack_push: "fits_12_bits s \<Longrightarrow> stack_push s = Inr s1 \<Longrightarrow> fits_12_bits s1"
  by (auto simp: fits_12_bits_def stack_push_def split: if_splits)

lemma fits_stack_pop: "fits_12_bits s \<Longrightarrow> stack_pop s = Inr s1 \<Longrightarrow> fits_12_bits s1"
  by (auto simp: fits_12_bits_def stack_pop_def split: if_splits)

lemma fits_fb_update: "fits_12_bits s \<Longrightarrow> fits_12_bits (s\<lparr>core_fb := f\<rparr>)"
  by (simp add: fits_12_bits_def)

lemma fits_draw_rows:
  "fits_12_bits s \<Longrightarrow> draw_rows n i vx vy x y h c s = Inr (c1, s1) \<Longrightarrow> fits_12_bits s1"
proof (induction n i vx vy x y h c s rule: draw_rows.induct)
  case (1 n i vx vy x y h collision s)
  show ?case
  proof (cases "h < n")
    case True
    from "1.prems"(2) True obtain row c2 f2 where
      r: "mem_read s (i + of_nat h) = Inr row" and
      d: "draw_cols n row vx vy h x y 0 collision (core_fb s) = Inr (c2, f2)" and
      rest: "draw_rows n i vx vy x y (h + 1) c2 (s\<lparr>core_fb := f2\<rparr>) = Inr (c1, s1)"
      by (subst (asm) draw_rows.simps) (auto simp: bind_res_eq_Inr)
    show ?thesis
      by (rule "1.IH" [OF True fits_fb_update [OF "1.prems"(1)] rest])
  next
    case False
    with "1.prems" show ?thesis by (subst (asm) draw_rows.simps) simp
  qed
qed

lemma fits_draw_sprite:
  "fits_12_bits s \<Longrightarrow> draw_sprite s n i vx vy x y = Inr s1 \<Longrightarrow> fits_12_bits s1"
  by (auto simp: draw_sprite_def bind_res_eq_Inr fits_vf_set dest: fits_draw_rows)

lemma fits_store_regs:
  "fits_12_bits s \<Longrightarrow> store_regs i x j s = Inr s1 \<Longrightarrow> fits_12_bits s1"
proof (induction i x j s rule: store_regs.induct)
  case (1 i x j s)
  show ?case
  proof (cases "j \<le> x")
    case True
    from "1.prems"(2) True obtain r s2 where
      r: "reg_read s j = Inr r" and
      w: "mem_write s (i + of_nat j) r = Inr s2" and
      rest: "store_regs i x (j + 1) s2 = Inr s1"
      by (subst (asm) store_regs.simps) (auto simp: bind_res_eq_Inr)
    show ?thesis
      by (rule "1.IH" [OF True fits_mem_write [OF "1.prems"(1) w] rest])
  next
    case False
    with "1.prems" show ?thesis by (subst (asm) store_regs.simps) simp
  qed
qed

lemma fits_load_regs:
  "fits_12_bits s \<Longrightarrow> load_regs i x j s = Inr s1 \<Longrightarrow> fits_12_bits s1"
proof (induction i x j s rule: load_regs.induct)
  case (1 i x j s)
  show ?case
  proof (cases "j \<le> x")
    case True
    from "1.prems"(2) True obtain b s2 where
      r: "mem_read s (i + of_nat j) = Inr b" and
      w: "reg_write s j b = Inr s2" and
      rest: "load_regs i x (j + 1) s2 = Inr s1"
      by (subst (asm) load_regs.simps) (auto simp: bind_res_eq_Inr)
    show ?thesis
      by (rule "1.IH" [OF True fits_reg_write [OF "1.prems"(1) w] rest])
  next
    case False
    with "1.prems" show ?thesis by (subst (asm) load_regs.simps) simp
  qed
qed

lemma fits_exec_8:
  "fits_12_bits s \<Longrightarrow> exec_8 s pc w i000n x vx vy = Inr s1 \<Longrightarrow> fits_12_bits s1"
  by (auto simp: exec_8_def Let_def bind_res_eq_Inr invalid_instr_def fits_vf_set
           split: if_splits dest: fits_reg_write)

lemma fits_exec_e:
  "fits_12_bits s \<Longrightarrow> exec_e s pc w i00nn k = Inr s1 \<Longrightarrow> fits_12_bits s1"
  by (auto simp: exec_e_def invalid_instr_def fits_skip_instr split: if_splits)

lemma fits_timer:
  "fits_12_bits s \<Longrightarrow> fits_12_bits (s\<lparr>timer_delay := a\<rparr>)"
  "fits_12_bits s \<Longrightarrow> fits_12_bits (s\<lparr>timer_sound := a\<rparr>)"
  by (simp_all add: fits_12_bits_def)

lemma fits_wait:
  "fits_12_bits s \<Longrightarrow> fits_12_bits (s\<lparr>is_waiting_for_keypress := a, keypress_index_register := r\<rparr>)"
  by (simp add: fits_12_bits_def)

lemma fits_exec_f:
  "fits_12_bits s \<Longrightarrow> exec_f s pc w i00nn x vx i = Inr s1 \<Longrightarrow> fits_12_bits s1"
  by (auto simp: exec_f_def Let_def bind_res_eq_Inr invalid_instr_def fits_i_set fits_timer fits_wait
           split: if_splits dest: fits_reg_write fits_store_regs fits_load_regs)
    (blast intro: fits_mem_write)


lemma fits_execute:
  "fits_12_bits s \<Longrightarrow> execute rnd w s = Inr s1 \<Longrightarrow> fits_12_bits s1"
  by (auto simp: execute_def Let_def bind_res_eq_Inr invalid_instr_def fits_pc_set fits_i_set
                 fits_skip_instr fits_fb_update
           split: if_splits
           dest: fits_reg_write fits_stack_push fits_stack_pop fits_exec_8 fits_exec_e
                 fits_exec_f fits_draw_sprite)

lemma fits_run_for_instruction:
  assumes "fits_12_bits s" and "run_for_instruction rnd s = Inr s1"
  shows "fits_12_bits s1"
proof (cases "is_waiting_for_keypress s")
  case True
  with assms show ?thesis by (simp add: run_for_instruction_def)
next
  case False
  have pc: "unat (core_pc s) < 4096"
    using assms(1) unat_and_fff [of "core_pc s"] by (simp add: fits_12_bits_def)
  have "fits_12_bits (s\<lparr>core_pc := next_pc (core_pc s)\<rparr>)"
    using assms(1) by (simp add: fits_12_bits_def next_pc_def and.assoc)
  moreover have "execute rnd (fetched_word s) (s\<lparr>core_pc := next_pc (core_pc s)\<rparr>) = Inr s1"
    using assms(2) run_for_instruction_fetch [OF False pc] by simp
  ultimately show ?thesis by (rule fits_execute)
qed

lemma fits_tick_timers: "fits_12_bits s \<Longrightarrow> fits_12_bits (tick_timers s)"
  by (simp add: fits_12_bits_def tick_timers_def Let_def)

lemma fits_update_hexpad_bitmap:
  "fits_12_bits s \<Longrightarrow> update_hexpad_bitmap s b = Inr s1 \<Longrightarrow> fits_12_bits s1"
  by (auto simp: update_hexpad_bitmap_def Let_def bind_res_eq_Inr fits_12_bits_def reg_write_def
           split: if_splits)

lemma fits_create: "create rom = Inr s \<Longrightarrow> fits_12_bits s"
  by (cases "length rom \<le> 3584") (auto simp: create_Inr create_Inl fits_12_bits_def zero_Core_def)

text \<open>
  C8. In every state reachable from \<open>create\<close> by instruction steps, timer ticks and
  keypad updates, the program counter and the index register are unchanged by masking
  with 0x0FFF.
\<close>

theorem pc_and_i_fit_12_bits:
  assumes "reachable s"
  shows "core_pc s = core_pc s AND 0x0fff \<and> core_i s = core_i s AND 0x0fff"
proof -
  from assms have "fits_12_bits s"
    by (induction rule: reachable.induct)
      (auto intro: fits_create fits_run_for_instruction fits_tick_timers fits_update_hexpad_bitmap)
  then show ?thesis by (simp add: fits_12_bits_def)
qed


lemma execute_ANNN_example:
  "execute rnd 0xAFFF s = Inr (s\<lparr>core_i := 0xFFF\<rparr>)"
  by (simp add: execute_def Let_def reg_read_def is_key_pressed_def unat_and_f i_set_def)

theorem pc_and_i_fit_12_bits_witness:
  "reachable (zero_Core\<lparr>main_memory := rom_image [0xAF, 0xFF], core_pc := 0x202, core_i := 0xFFF\<rparr>)
   \<and> core_pc (zero_Core\<lparr>main_memory := rom_image [0xAF, 0xFF], core_pc := 0x202, core_i := 0xFFF\<rparr>)
       = 0x202 AND 0x0fff
   \<and> core_i (zero_Core\<lparr>main_memory := rom_image [0xAF, 0xFF], core_pc := 0x202, core_i := 0xFFF\<rparr>)
       = 0xFFF AND 0x0fff"
proof -
  let ?s0 = "zero_Core\<lparr>main_memory := rom_image [0xAF, 0xFF], core_pc := 0x200\<rparr>"
  let ?s1 = "zero_Core\<lparr>main_memory := rom_image [0xAF, 0xFF], core_pc := 0x202, core_i := 0xFFF\<rparr>"
  have "create [0xAF, 0xFF] = Inr ?s0" by (simp add: create_Inr)
  then have r0: "reachable ?s0" by (rule reachable_create)
  have w: "fetched_word ?s0 = 0xAFFF"
    by (simp add: fetched_word_def rom_image_def)
  have a: "\<not> is_waiting_for_keypress ?s0" by (simp add: zero_Core_def)
  have "run_for_instruction 0 ?s0 = Inr ?s1"
    using a by (simp add: run_for_instruction_fetch w execute_ANNN_example next_pc_def)
  with r0 have r1: "reachable ?s1" by (rule reachable_step)
  show ?thesis
    using pc_and_i_fit_12_bits [OF r1] r1 by simp
qed

section \<open>Decode errors\<close>

lemma unat_and_ff: "unat ((w :: u16) AND 0xff) < 256"
proof -
  have "w AND 0xff \<le> 0xff" by (rule word_and_le1)
  then have "unat (w AND 0xff) \<le> unat (0xff :: u16)" by (simp add: word_le_nat_alt)
  then show ?thesis by simp
qed

lemma unat_top_nibble: "unat (drop_bit 12 (w :: u16)) < 16"
proof -
  have "unat (drop_bit 12 w) = unat w div 2 ^ 12"
    by (simp add: drop_bit_eq_div unat_div)
  moreover have "unat w < 2 ^ 16" using unsigned_less [of w] by simp
  ultimately show ?thesis by simp
qed

lemma ucast_u8_eq_iff:
  fixes a :: u16 and b :: u8
  assumes "unat a < 256"
  shows "(ucast a = b) \<longleftrightarrow> unat a = unat b"
  using assms by (simp add: word_unat_eq_iff unsigned_ucast_eq take_bit_nat_eq_self)

lemma in000_eq: "((ucast (drop_bit 12 (w :: u16)) :: u8) = b) \<longleftrightarrow> unat (drop_bit 12 w) = unat b"
  using unat_top_nibble [of w] by (intro ucast_u8_eq_iff) simp

lemma i000n_eq: "((ucast ((w :: u16) AND 0xf) :: u8) = b) \<longleftrightarrow> unat (w AND 0xf) = unat b"
  using unat_and_f16 [of w] by (intro ucast_u8_eq_iff) simp

lemma i00nn_eq: "((ucast ((w :: u16) AND 0xff) :: u8) = b) \<longleftrightarrow> unat (w AND 0xff) = unat b"
  using unat_and_ff [of w] by (intro ucast_u8_eq_iff) simp

lemma nat_less_16_cases:
  "n < 16 \<Longrightarrow> n \<in> {0, 1, 2, 3, 4, 5, 6, 7, 8, 9, 10, 11, 12, 13, 14, 15 :: nat}"
  by (simp add: numeral_eq_Suc less_Suc_eq)

lemma execute_unknown:
  assumes "\<not> spec_known_opcode w"
  shows "execute rnd w s = Inl (Invalid_instruction (uint (core_pc s) - 2) w)"
proof -
  have "unat (drop_bit 12 w) < 16" by (rule unat_top_nibble)
  then have top: "unat (drop_bit 12 w) \<in> {0, 1, 2, 3, 4, 5, 6, 7, 8, 9, 10, 11, 12, 13, 14, 15}"
    by (rule nat_less_16_cases)
  show ?thesis
    using assms
    by (simp add: execute_def Let_def reg_read_def is_key_pressed_def unat_and_f unat_and_f16
        in000_eq i000n_eq i00nn_eq spec_known_opcode_def exec_8_def exec_e_def exec_f_def
        invalid_instr_def pc_get_def)
      (use top in auto)
qed

lemma decode_error_bind:
  "decode_error (bind_res r f) \<longleftrightarrow> decode_error r \<or> (\<exists>x. r = Inr x \<and> decode_error (f x))"
proof (cases r)
  case (Inl e)
  then show ?thesis by (cases e) simp_all
next
  case (Inr x)
  then show ?thesis by simp
qed

lemma no_decode_error_prims [simp]:
  "\<not> decode_error (reg_read s x)"
  "\<not> decode_error (reg_write s x v)"
  "\<not> decode_error (mem_read s a)"
  "\<not> decode_error (mem_write s a v)"
  "\<not> decode_error (stack_push s)"
  "\<not> decode_error (stack_pop s)"
  "\<not> decode_error (pixel_status f px py)"
  "\<not> decode_error (set_pixel f px py c)"
  "\<not> decode_error (is_key_pressed h k)"
  by (simp_all add: reg_read_def reg_write_def mem_read_def mem_write_def
      stack_push_def stack_pop_def pixel_status_def set_pixel_def is_key_pressed_def)

lemma no_decode_error_draw_cols [simp]:
  "\<not> decode_error (draw_cols n row vx vy h x y w c f)"
proof (induction n row vx vy h x y w c f rule: draw_cols.induct)
  case (1 n row vx vy h x y w c f)
  show ?case
  proof (cases "w < n")
    case True
    then show ?thesis
      using "1.IH" by (subst draw_cols.simps) (simp add: Let_def decode_error_bind)
  next
    case False
    then show ?thesis by (subst draw_cols.simps) simp
  qed
qed

lemma no_decode_error_draw_rows [simp]:
  "\<not> decode_error (draw_rows n i vx vy x y h c s)"
proof (induction n i vx vy x y h c s rule: draw_rows.induct)
  case (1 n i vx vy x y h c s)
  show ?case
  proof (cases "h < n")
    case True
    then show ?thesis
      using "1.IH" by (subst draw_rows.simps) (auto simp: decode_error_bind)
  next
    case False
    then show ?thesis by (subst draw_rows.simps) simp
  qed
qed

lemma no_decode_error_store_regs [simp]: "\<not> decode_error (store_regs i x j s)"
proof (induction i x j s rule: store_regs.induct)
  case (1 i x j s)
  show ?case
  proof (cases "j \<le> x")
    case True
    then show ?thesis
      using "1.IH" by (subst store_regs.simps) (auto simp: decode_error_bind)
  next
    case False
    then show ?thesis by (subst store_regs.simps) simp
  qed
qed

lemma no_decode_error_load_regs [simp]: "\<not> decode_error (load_regs i x j s)"
proof (induction i x j s rule: load_regs.induct)
  case (1 i x j s)
  show ?case
  proof (cases "j \<le> x")
    case True
    then show ?thesis
      using "1.IH" by (subst load_regs.simps) (auto simp: decode_error_bind)
  next
    case False
    then show ?thesis by (subst load_regs.simps) simp
  qed
qed

lemma no_decode_error_draw_sprite [simp]: "\<not> decode_error (draw_sprite s n i vx vy x y)"
  by (auto simp: draw_sprite_def decode_error_bind)


lemma no_decode_error_exec_8:
  "unat i000n \<in> {0, 1, 2, 3, 4, 5, 6, 7, 0xe} \<Longrightarrow> \<not> decode_error (exec_8 s pc w i000n x vx vy)"
  by (auto simp: exec_8_def Let_def decode_error_bind word_unat_eq_iff)

lemma no_decode_error_exec_e:
  "unat i00nn \<in> {0x9e, 0xa1} \<Longrightarrow> \<not> decode_error (exec_e s pc w i00nn k)"
  by (auto simp: exec_e_def word_unat_eq_iff)

lemma no_decode_error_exec_f:
  "unat i00nn \<in> {0x07, 0x0a, 0x15, 0x18, 0x1e, 0x29, 0x33, 0x55, 0x65}
   \<Longrightarrow> \<not> decode_error (exec_f s pc w i00nn x vx i)"
  by (auto simp: exec_f_def Let_def decode_error_bind word_unat_eq_iff)


lemma unat_ucast_low:
  "unat (ucast ((w :: u16) AND 0xf) :: u8) = unat (w AND 0xf)"
  "unat (ucast ((w :: u16) AND 0xff) :: u8) = unat (w AND 0xff)"
  using unat_and_f16 [of w] unat_and_ff [of w]
  by (simp_all add: unsigned_ucast_eq take_bit_nat_eq_self)

lemma execute_known:
  assumes "spec_known_opcode w"
  shows "\<not> decode_error (execute rnd w s)"
proof -
  let ?top = "unat (drop_bit 12 w)"
  consider "w = 0x00e0" | "w = 0x00ee"
    | "?top \<in> {1, 2, 3, 4, 5, 6, 7, 9, 0xa, 0xb, 0xc, 0xd}"
    | "?top = 8" "unat (w AND 0x000f) \<in> {0, 1, 2, 3, 4, 5, 6, 7, 0xe}"
    | "?top = 0xe" "unat (w AND 0x00ff) \<in> {0x9e, 0xa1}"
    | "?top = 0xf" "unat (w AND 0x00ff) \<in> {0x07, 0x0a, 0x15, 0x18, 0x1e, 0x29, 0x33, 0x55, 0x65}"
    using assms unfolding spec_known_opcode_def Let_def by blast
  then show ?thesis
  proof cases
    case 1
    then show ?thesis by (simp add: execute_clear)
  next
    case 2
    then show ?thesis
      by (simp add: execute_def Let_def reg_read_def is_key_pressed_def unat_and_f)
  next
    case 3
    then show ?thesis
      by (auto simp: execute_def Let_def reg_read_def is_key_pressed_def unat_and_f unat_and_f16
          in000_eq decode_error_bind)
  next
    case 4
    then show ?thesis
      using no_decode_error_exec_8 [of "ucast (w AND 0x000f)"]
      by (auto simp: execute_def Let_def reg_read_def is_key_pressed_def unat_and_f unat_and_f16
          in000_eq unat_ucast_low)
  next
    case 5
    then show ?thesis
      using no_decode_error_exec_e [of "ucast (w AND 0x00ff)"]
      by (auto simp: execute_def Let_def reg_read_def is_key_pressed_def unat_and_f unat_and_f16
          in000_eq unat_ucast_low)
  next
    case 6
    then show ?thesis
      using no_decode_error_exec_f [of "ucast (w AND 0x00ff)"]
      by (auto simp: execute_def Let_def reg_read_def is_key_pressed_def unat_and_f unat_and_f16
          in000_eq unat_ucast_low)
  qed
qed


lemma run_for_instruction_known:
  assumes "\<not> is_waiting_for_keypress s" and "unat (core_pc s) < 4096"
      and "spec_known_opcode (fetched_word s)"
  shows "\<not> decode_error (run_for_instruction rnd s)"
  using assms by (simp add: run_for_instruction_fetch execute_known)

text \<open>
  C6. When the core is not waiting and the program counter addresses memory, a fetched
  word whose top nibble is 0 and whose low 12 bits are neither 0x0E0 nor 0x0EE, and
  any other word that the decoder does not match, makes \<open>run_for_instruction\<close> fail
  with the invalid-instruction error, which carries the address of the word and the
  word; no state is returned.
\<close>

theorem unknown_word_is_decode_error:
  assumes "\<not> is_waiting_for_keypress s" and "unat (core_pc s) < 4096"
  shows "(unat (drop_bit 12 (fetched_word s)) = 0
            \<and> fetched_word s AND 0x0fff \<noteq> 0x0e0 \<and> fetched_word s AND 0x0fff \<noteq> 0x0ee
          \<longrightarrow> run_for_instruction rnd s =
                Inl (Invalid_instruction (uint (next_pc (core_pc s)) - 2) (fetched_word s)))
       \<and> (\<not> spec_known_opcode (fetched_word s)
          \<longrightarrow> run_for_instruction rnd s =
                Inl (Invalid_instruction (uint (next_pc (core_pc s)) - 2) (fetched_word s)))"
proof -
  let ?w = "fetched_word s"
  have run: "run_for_instruction rnd s =
               Inl (Invalid_instruction (uint (next_pc (core_pc s)) - 2) ?w)"
    if "\<not> spec_known_opcode ?w"
    using that assms by (simp add: run_for_instruction_fetch execute_unknown)
  have "\<not> spec_known_opcode ?w"
    if "unat (drop_bit 12 ?w) = 0" and "?w AND 0x0fff \<noteq> 0x0e0" and "?w AND 0x0fff \<noteq> 0x0ee"
  proof -
    have "?w \<noteq> 0x00e0" using that(2) by auto
    moreover have "?w \<noteq> 0x00ee" using that(3) by auto
    ultimately show ?thesis using that(1) by (simp add: spec_known_opcode_def)
  qed
  with run show ?thesis by blast
qed

theorem unknown_word_is_decode_error_witness:
  "\<not> is_waiting_for_keypress (zero_Core\<lparr>main_memory := rom_image [0x01, 0x23], core_pc := 0x200\<rparr>)
   \<and> unat (core_pc (zero_Core\<lparr>main_memory := rom_image [0x01, 0x23], core_pc := 0x200\<rparr>)) < 4096
   \<and> fetched_word (zero_Core\<lparr>main_memory := rom_image [0x01, 0x23], core_pc := 0x200\<rparr>) = 0x0123
   \<and> unat (drop_bit 12 (0x0123 :: u16)) = 0
   \<and> (0x0123 :: u16) AND 0x0fff \<noteq> 0x0e0 \<and> (0x0123 :: u16) AND 0x0fff \<noteq> 0x0ee
   \<and> \<not> spec_known_opcode 0x0123
   \<and> run_for_instruction 0 (zero_Core\<lparr>main_memory := rom_image [0x01, 0x23], core_pc := 0x200\<rparr>)
       = Inl (Invalid_instruction 0x200 0x0123)"
proof -
  let ?s = "zero_Core\<lparr>main_memory := rom_image [0x01, 0x23], core_pc := 0x200\<rparr>"
  have w: "fetched_word ?s = 0x0123"
    by (simp add: fetched_word_def rom_image_def)
  have k: "\<not> spec_known_opcode 0x0123"
    by (simp add: spec_known_opcode_def)
  have a: "\<not> is_waiting_for_keypress ?s" by (simp add: zero_Core_def)
  have b: "unat (core_pc ?s) < 4096" by simp
  show ?thesis
    using unknown_word_is_decode_error [OF a b, of 0] a w k
    by (simp add: next_pc_def)
qed

section \<open>Timers\<close>

text \<open>
  C9. One call of \<open>tick_timers\<close> takes exactly 1 off the delay timer when it is above 0
  and leaves it at 0 otherwise, and does the same to the sound timer; each result
  depends on that timer alone, and nothing else in the state changes.
\<close>

theorem tick_timers_decrements:
  "unat (timer_delay (tick_timers s)) =
     (if 0 < unat (timer_delay s) then unat (timer_delay s) - 1 else 0)
   \<and> unat (timer_sound (tick_timers s)) =
     (if 0 < unat (timer_sound s) then unat (timer_sound s) - 1 else 0)
   \<and> timer_delay (tick_timers (s\<lparr>timer_sound := a\<rparr>)) = timer_delay (tick_timers s)
   \<and> timer_sound (tick_timers (s\<lparr>timer_delay := b\<rparr>)) = timer_sound (tick_timers s)
   \<and> tick_timers s = s\<lparr>timer_delay := timer_delay (tick_timers s),
                        timer_sound := timer_sound (tick_timers s)\<rparr>"
  by (simp add: tick_timers_def Let_def unat_minus_one word_greater_zero_iff unat_eq_zero)

section \<open>Runs from a ROM\<close>

text \<open>
  The theorems of this section run the core on a ROM from \<open>create\<close> on, one
  instruction at a time, with \<open>std::rand()\<close> fixed to 0 (no instruction of these ROMs
  calls it).
\<close>

lemma ucast_sub_u32:
  "(ucast ((ucast (a :: u8) :: u32) - ucast (b :: u8)) :: u8) = a - b"
  by transfer (simp add: take_bit_diff)

lemma execute_8XY5_example:
  "execute rnd 0x8015 s =
     Inr (s\<lparr>core_v := (core_v s)(0 := core_v s 0 - core_v s 1, 15 := 0)\<rparr>)"
  by (simp add: execute_def Let_def reg_read_def is_key_pressed_def unat_and_f exec_8_def
      reg_write_def vf_set_def ucast_sub_u32)

lemma execute_6XNN_examples:
  "execute rnd 0x600A s = Inr (s\<lparr>core_v := (core_v s)(0 := 10)\<rparr>)"
  "execute rnd 0x6103 s = Inr (s\<lparr>core_v := (core_v s)(1 := 3)\<rparr>)"
  by (simp_all add: execute_def Let_def reg_read_def is_key_pressed_def unat_and_f reg_write_def)

lemma run_for_instruction_eval:
  assumes "\<not> is_waiting_for_keypress s" and "unat (core_pc s) < 4096"
      and "fetched_word s = w"
      and "execute rnd w (s\<lparr>core_pc := next_pc (core_pc s)\<rparr>) = r"
  shows "run_for_instruction rnd s = r"
  using assms by (simp add: run_for_instruction_fetch)

lemma run_for_instructions_unroll:
  "run_for_instructions rnd 1 s = bind_res (run_for_instruction (rnd 0) s) Inr"
  "run_for_instructions rnd 2 s =
     bind_res (run_for_instruction (rnd 1) s) (\<lambda>s1.
     bind_res (run_for_instruction (rnd 0) s1) Inr)"
  "run_for_instructions rnd 3 s =
     bind_res (run_for_instruction (rnd 2) s) (\<lambda>s1.
     bind_res (run_for_instruction (rnd 1) s1) (\<lambda>s2.
     bind_res (run_for_instruction (rnd 0) s2) Inr))"
  "run_for_instructions rnd 4 s =
     bind_res (run_for_instruction (rnd 3) s) (\<lambda>s1.
     bind_res (run_for_instruction (rnd 2) s1) (\<lambda>s2.
     bind_res (run_for_instruction (rnd 1) s2) (\<lambda>s3.
     bind_res (run_for_instruction (rnd 0) s3) Inr)))"
proof -
  have z: "run_for_instructions rnd 0 = Inr" by (rule ext) simp
  have s: "\<And>k. run_for_instructions rnd (Suc k) =
             (\<lambda>s. bind_res (run_for_instruction (rnd k) s) (run_for_instructions rnd k))"
    by (rule ext) simp
  show "run_for_instructions rnd 1 s = bind_res (run_for_instruction (rnd 0) s) Inr"
    by (simp add: z)
  show "run_for_instructions rnd 2 s =
     bind_res (run_for_instruction (rnd 1) s) (\<lambda>s1.
     bind_res (run_for_instruction (rnd 0) s1) Inr)"
    by (simp add: numeral_2_eq_2 z s)
  show "run_for_instructions rnd 3 s =
     bind_res (run_for_instruction (rnd 2) s) (\<lambda>s1.
     bind_res (run_for_instruction (rnd 1) s1) (\<lambda>s2.
     bind_res (run_for_instruction (rnd 0) s2) Inr))"
    by (simp add: numeral_3_eq_3 numeral_2_eq_2 z s)
  show "run_for_instructions rnd 4 s =
     bind_res (run_for_instruction (rnd 3) s) (\<lambda>s1.
     bind_res (run_for_instruction (rnd 2) s1) (\<lambda>s2.
     bind_res (run_for_instruction (rnd 1) s2) (\<lambda>s3.
     bind_res (run_for_instruction (rnd 0) s3) Inr)))"
    by (simp add: eval_nat_numeral z s)
qed

text \<open>
  For every pair of operands the two subtractions of the arithmetic group store the
  8-bit difference and clear the flag.
\<close>

lemma exec_8_sub_clears_flag:
  "exec_8 s pc w 5 x vx vy = bind_res (reg_write s x (vx - vy)) (\<lambda>s1. Inr (vf_set s1 False))"
  "exec_8 s pc w 7 x vx vy = bind_res (reg_write s x (vy - vx)) (\<lambda>s1. Inr (vf_set s1 False))"
  by (simp_all add: exec_8_def Let_def ucast_sub_u32)

text \<open>
  C2 (the code differs). The ROM 600A 6103 8015 sets V0 to 10 and V1 to 3 and subtracts
  V1 from V0. V0 becomes 7, as claimed, and VF becomes 0, where the claim has 1:
  \<open>no_borrow\<close> is \<open>res < 0\<close> on an unsigned \<open>res\<close>, which never holds.
\<close>

theorem sub_flag_failing_input:
  "\<exists>s. bind_res (create [0x60, 0x0A, 0x61, 0x03, 0x80, 0x15]) (run_for_instructions (\<lambda>_. 0) 3) = Inr s
       \<and> core_v s 0 = 7 \<and> core_v s 1 = 3 \<and> core_v s 15 = 0"
proof -
  let ?m = "rom_image [0x60, 0x0A, 0x61, 0x03, 0x80, 0x15]"
  let ?s0 = "zero_Core\<lparr>main_memory := ?m, core_pc := 0x200\<rparr>"
  let ?s1 = "zero_Core\<lparr>main_memory := ?m, core_pc := 0x202, core_v := (\<lambda>_. 0)(0 := 10)\<rparr>"
  let ?s2 = "zero_Core\<lparr>main_memory := ?m, core_pc := 0x204, core_v := (\<lambda>_. 0)(0 := 10, 1 := 3)\<rparr>"
  let ?s3 = "zero_Core\<lparr>main_memory := ?m, core_pc := 0x206,
                        core_v := (\<lambda>_. 0)(0 := 10, 1 := 3, 0 := 10 - 3, 15 := 0)\<rparr>"
  have c: "create [0x60, 0x0A, 0x61, 0x03, 0x80, 0x15] = Inr ?s0"
    by (simp add: create_Inr)
  have r1: "run_for_instruction 0 ?s0 = Inr ?s1"
    by (rule run_for_instruction_eval [where w = "0x600A"])
      (simp_all add: zero_Core_def fetched_word_def rom_image_def next_pc_def execute_6XNN_examples)
  have r2: "run_for_instruction 0 ?s1 = Inr ?s2"
    by (rule run_for_instruction_eval [where w = "0x6103"])
      (simp_all add: zero_Core_def fetched_word_def rom_image_def next_pc_def execute_6XNN_examples)
  have r3: "run_for_instruction 0 ?s2 = Inr ?s3"
    by (rule run_for_instruction_eval [where w = "0x8015"])
      (simp_all add: zero_Core_def fetched_word_def rom_image_def next_pc_def execute_8XY5_example)
  have "bind_res (create [0x60, 0x0A, 0x61, 0x03, 0x80, 0x15]) (run_for_instructions (\<lambda>_. 0) 3)
          = Inr ?s3"
    by (simp only: run_for_instructions_unroll c r1 r2 r3 bind_res_Inr)
  then show ?thesis by simp
qed


lemma execute_call_return_examples:
  "core_sp s < 16 \<Longrightarrow>
   execute rnd 0x2204 s =
     Inr (s\<lparr>core_stack := (core_stack s)(core_sp s := core_pc s),
            core_sp := core_sp s + 1, core_pc := 0x204\<rparr>)"
  "0 < core_sp s \<Longrightarrow>
   execute rnd 0x00EE s =
     Inr (s\<lparr>core_sp := core_sp s - 1,
            core_stack := (core_stack s)(core_sp s - 1 := core_pc s)\<rparr>)"
  by (simp_all add: execute_def Let_def reg_read_def is_key_pressed_def unat_and_f
      stack_push_def stack_pop_def STACK_SIZE_def pc_set_def)

text \<open>A successful \<open>stack_pop\<close> leaves the program counter as it was.\<close>

lemma stack_pop_keeps_pc: "stack_pop s = Inr s1 \<Longrightarrow> core_pc s1 = core_pc s"
  by (auto simp: stack_pop_def split: if_splits)

text \<open>
  C3 (the code differs). The ROM 2204 0000 00EE calls address 0x204, where a return
  stands. After the call the program counter is 0x204 and the stack holds 0x202, the
  address after the call. After the return the stack is empty, but the program counter
  is 0x206, the address after the return instruction, where the claim has 0x202:
  \<open>stack_pop\<close> stores the program counter into the stack slot and never reads the slot.
\<close>

theorem call_return_failing_input:
  "\<exists>s1 s2.
     bind_res (create [0x22, 0x04, 0x00, 0x00, 0x00, 0xEE]) (run_for_instructions (\<lambda>_. 0) 1) = Inr s1
     \<and> core_pc s1 = 0x204 \<and> core_sp s1 = 1 \<and> core_stack s1 0 = 0x202
     \<and> bind_res (create [0x22, 0x04, 0x00, 0x00, 0x00, 0xEE]) (run_for_instructions (\<lambda>_. 0) 2) = Inr s2
     \<and> core_pc s2 = 0x206 \<and> core_sp s2 = 0 \<and> core_stack s2 0 = 0x206"
proof -
  let ?m = "rom_image [0x22, 0x04, 0x00, 0x00, 0x00, 0xEE]"
  let ?s0 = "zero_Core\<lparr>main_memory := ?m, core_pc := 0x200\<rparr>"
  let ?s1 = "zero_Core\<lparr>main_memory := ?m, core_pc := 0x204, core_sp := 1,
                        core_stack := (\<lambda>_. 0)(0 := 0x202)\<rparr>"
  let ?s2 = "zero_Core\<lparr>main_memory := ?m, core_pc := 0x206, core_sp := 0,
                        core_stack := (\<lambda>_. 0)(0 := 0x206)\<rparr>"
  have c: "create [0x22, 0x04, 0x00, 0x00, 0x00, 0xEE] = Inr ?s0"
    by (simp add: create_Inr)
  have r1: "run_for_instruction 0 ?s0 = Inr ?s1"
    by (rule run_for_instruction_eval [where w = "0x2204"])
      (simp_all add: zero_Core_def fetched_word_def rom_image_def next_pc_def
        execute_call_return_examples)
  have r2: "run_for_instruction 0 ?s1 = Inr ?s2"
    by (rule run_for_instruction_eval [where w = "0x00EE"])
      (simp_all add: zero_Core_def fetched_word_def rom_image_def next_pc_def
        execute_call_return_examples)
  have one: "bind_res (create [0x22, 0x04, 0x00, 0x00, 0x00, 0xEE])
               (run_for_instructions (\<lambda>_. 0) 1) = Inr ?s1"
    by (simp only: run_for_instructions_unroll c r1 bind_res_Inr)
  have two: "bind_res (create [0x22, 0x04, 0x00, 0x00, 0x00, 0xEE])
               (run_for_instructions (\<lambda>_. 0) 2) = Inr ?s2"
    by (simp only: run_for_instructions_unroll c r1 r2 bind_res_Inr)
  show ?thesis
    unfolding one two by simp
qed

lemma draw_cols_2_example:
  assumes "x < 60" and "y < 60"
      and "pixel_array f (7 * 60 + 5) = 0" and "pixel_array f (7 * 60 + 6) = 0"
      and "pixel_array f (8 * 60 + 5) = 0" and "pixel_array f (8 * 60 + 6) = 0"
      and "y * 60 + x \<notin> {7 * 60 + 5, 7 * 60 + 6, 8 * 60 + 5, 8 * 60 + 6}"
  shows "draw_cols 2 0xFF 5 7 0 x y 0 c f =
           Inr (True, f\<lparr>pixel_array := (pixel_array f)(y * 60 + x := PIXEL_ON)\<rparr>)"
    and "draw_cols 2 0xFF 5 7 (Suc 0) x y 0 c f =
           Inr (True, f\<lparr>pixel_array := (pixel_array f)(y * 60 + x := PIXEL_ON)\<rparr>)"
  using assms
  by (simp_all add: draw_cols.simps Let_def pixel_status_def set_pixel_def FB_WIDTH_def
      FB_HEIGHT_def PIXEL_ON_def)

lemma execute_D122_example:
  assumes "core_v s 1 = 5" and "core_v s 2 = 7" and "core_i s = 0x208"
      and "main_memory s 0x208 = 0xFF" and "main_memory s 0x209 = 0xFF"
      and "core_fb s = \<lparr>pixel_array = (\<lambda>_. 0)\<rparr>"
  shows "execute rnd 0xD122 s =
           Inr (s\<lparr>core_fb := \<lparr>pixel_array = (\<lambda>_. 0)(2 * 60 + 1 := PIXEL_ON)\<rparr>,
                  core_v := (core_v s)(15 := 1)\<rparr>)"
  using assms
  by (simp add: execute_def Let_def reg_read_def is_key_pressed_def unat_and_f i_get_def
      draw_sprite_def draw_rows.simps mem_read_def draw_cols_2_example vf_set_def)

lemma execute_sprite_setup_examples:
  "execute rnd 0x6105 s = Inr (s\<lparr>core_v := (core_v s)(1 := 5)\<rparr>)"
  "execute rnd 0x6207 s = Inr (s\<lparr>core_v := (core_v s)(2 := 7)\<rparr>)"
  "execute rnd 0xA208 s = Inr (s\<lparr>core_i := 0x208\<rparr>)"
  by (simp_all add: execute_def Let_def reg_read_def is_key_pressed_def unat_and_f reg_write_def
      i_set_def)

text \<open>
  Whatever the sprite and the coordinates, a draw leaves every pixel other than the one
  addressed by the register numbers \<open>x\<close> and \<open>y\<close> as it was.
\<close>

lemma set_pixel_elsewhere:
  "set_pixel f x y c = Inr f1 \<Longrightarrow> k \<noteq> y * FB_WIDTH + x \<Longrightarrow> pixel_array f1 k = pixel_array f k"
  by (auto simp: set_pixel_def split: if_splits)

lemma draw_cols_elsewhere:
  "draw_cols n row vx vy h x y w c f = Inr (c1, f1) \<Longrightarrow> k \<noteq> y * FB_WIDTH + x
   \<Longrightarrow> pixel_array f1 k = pixel_array f k"
proof (induction n row vx vy h x y w c f rule: draw_cols.induct)
  case (1 n row vx vy h x y w c f)
  show ?case
  proof (cases "w < n")
    case True
    from "1.prems"(1) True obtain old f2 where
      s: "set_pixel f x y True = Inr f2" and
      rest: "draw_cols n row vx vy h x y (w + 1)
               (c \<or> old \<noteq> (row AND push_bit w 1 \<noteq> 0)) f2 = Inr (c1, f1)"
      by (subst (asm) draw_cols.simps) (auto simp: Let_def bind_res_eq_Inr)
    have "pixel_array f1 k = pixel_array f2 k"
      by (rule "1.IH" [OF True refl refl refl rest "1.prems"(2)])
    with set_pixel_elsewhere [OF s "1.prems"(2)] show ?thesis by simp
  next
    case False
    with "1.prems" show ?thesis by (subst (asm) draw_cols.simps) simp
  qed
qed

lemma draw_rows_elsewhere:
  "draw_rows n i vx vy x y h c s = Inr (c1, s1) \<Longrightarrow> k \<noteq> y * FB_WIDTH + x
   \<Longrightarrow> pixel_array (core_fb s1) k = pixel_array (core_fb s) k"
proof (induction n i vx vy x y h c s rule: draw_rows.induct)
  case (1 n i vx vy x y h c s)
  show ?case
  proof (cases "h < n")
    case True
    from "1.prems"(1) True obtain row c2 f2 where
      d: "draw_cols n row vx vy h x y 0 c (core_fb s) = Inr (c2, f2)" and
      rest: "draw_rows n i vx vy x y (h + 1) c2 (s\<lparr>core_fb := f2\<rparr>) = Inr (c1, s1)"
      by (subst (asm) draw_rows.simps) (auto simp: bind_res_eq_Inr)
    have "pixel_array (core_fb s1) k = pixel_array (core_fb (s\<lparr>core_fb := f2\<rparr>)) k"
      by (rule "1.IH" [OF True rest "1.prems"(2)])
    with draw_cols_elsewhere [OF d "1.prems"(2)] show ?thesis by simp
  next
    case False
    with "1.prems" show ?thesis by (subst (asm) draw_rows.simps) simp
  qed
qed

lemma draw_sprite_elsewhere:
  assumes "draw_sprite s n i vx vy x y = Inr s1" and "k \<noteq> y * FB_WIDTH + x"
  shows "pixel_array (core_fb s1) k = pixel_array (core_fb s) k"
proof -
  from assms(1) obtain c2 s2 where
    d: "draw_rows n i vx vy x y 0 False s = Inr (c2, s2)" and s1: "s1 = vf_set s2 c2"
    by (auto simp: draw_sprite_def bind_res_eq_Inr)
  show ?thesis
    using draw_rows_elsewhere [OF d assms(2)] by (simp add: s1 vf_set_def)
qed

text \<open>
  C1 (the code differs). The ROM 6105 6207 A208 D122 FFFF sets V1 to 5, V2 to 7 and I to
  0x208, and draws the two rows 0xFF, 0xFF found there at (V1, V2) = (5, 7) on the
  blank screen. By the claim the pixel (5, 7) is on afterwards, (1, 2) is untouched and
  VF is 0. In the code (5, 7) stays off, the pixel (1, 2), addressed by the register
  numbers of the instruction, is on, and VF is 1.
\<close>

theorem draw_sprite_failing_input:
  "\<exists>s. bind_res (create [0x61, 0x05, 0x62, 0x07, 0xA2, 0x08, 0xD1, 0x22, 0xFF, 0xFF])
           (run_for_instructions (\<lambda>_. 0) 4) = Inr s
       \<and> core_v s 1 = 5 \<and> core_v s 2 = 7 \<and> core_i s = 0x208
       \<and> main_memory s 0x208 = 0xFF \<and> main_memory s 0x209 = 0xFF
       \<and> pixel_status (core_fb s) 5 7 = Inr False
       \<and> pixel_status (core_fb s) 1 2 = Inr True
       \<and> core_v s 15 = 1"
proof -
  let ?rom = "[0x61, 0x05, 0x62, 0x07, 0xA2, 0x08, 0xD1, 0x22, 0xFF, 0xFF] :: u8 list"
  let ?m = "rom_image ?rom"
  let ?s0 = "zero_Core\<lparr>main_memory := ?m, core_pc := 0x200\<rparr>"
  let ?s1 = "zero_Core\<lparr>main_memory := ?m, core_pc := 0x202, core_v := (\<lambda>_. 0)(1 := 5)\<rparr>"
  let ?s2 = "zero_Core\<lparr>main_memory := ?m, core_pc := 0x204, core_v := (\<lambda>_. 0)(1 := 5, 2 := 7)\<rparr>"
  let ?s3 = "zero_Core\<lparr>main_memory := ?m, core_pc := 0x206, core_v := (\<lambda>_. 0)(1 := 5, 2 := 7),
                        core_i := 0x208\<rparr>"
  let ?s4 = "zero_Core\<lparr>main_memory := ?m, core_pc := 0x208,
                        core_v := (\<lambda>_. 0)(1 := 5, 2 := 7, 15 := 1), core_i := 0x208,
                        core_fb := \<lparr>pixel_array = (\<lambda>_. 0)(2 * 60 + 1 := PIXEL_ON)\<rparr>\<rparr>"
  have c: "create ?rom = Inr ?s0"
    by (simp add: create_Inr)
  have r1: "run_for_instruction 0 ?s0 = Inr ?s1"
    by (rule run_for_instruction_eval [where w = "0x6105"])
      (simp_all add: zero_Core_def fetched_word_def rom_image_def next_pc_def
        execute_sprite_setup_examples)
  have r2: "run_for_instruction 0 ?s1 = Inr ?s2"
    by (rule run_for_instruction_eval [where w = "0x6207"])
      (simp_all add: zero_Core_def fetched_word_def rom_image_def next_pc_def
        execute_sprite_setup_examples)
  have r3: "run_for_instruction 0 ?s2 = Inr ?s3"
    by (rule run_for_instruction_eval [where w = "0xA208"])
      (simp_all add: zero_Core_def fetched_word_def rom_image_def next_pc_def
        execute_sprite_setup_examples)
  have r4: "run_for_instruction 0 ?s3 = Inr ?s4"
    by (rule run_for_instruction_eval [where w = "0xD122"])
      (simp_all add: zero_Core_def fetched_word_def rom_image_def next_pc_def
        execute_D122_example)
  have "bind_res (create ?rom) (run_for_instructions (\<lambda>_. 0) 4) = Inr ?s4"
    by (simp only: run_for_instructions_unroll c r1 r2 r3 r4 bind_res_Inr)
  then show ?thesis
    by (simp add: zero_Core_def rom_image_def pixel_status_def FB_WIDTH_def FB_HEIGHT_def
        PIXEL_ON_def)
qed

end
